theory Spec2Isabelle
  imports Main
begin

section \<open>Basic types\<close>

text \<open>
  \<^verbatim>\<open>ContentId\<close> and \<^verbatim>\<open>UserId\<close> are branded strings. A string is the list of its
  code units: \<^verbatim>\<open>s.length\<close> is \<open>length s\<close>, \<^verbatim>\<open>s.substring(0, n)\<close> is \<open>take n s\<close>,
  \<^verbatim>\<open>===\<close> on strings is equality, and the only falsy string is the empty one.
  A \<^verbatim>\<open>Date\<close> is its time value \<^verbatim>\<open>getTime()\<close>, the milliseconds since the epoch,
  negative before 1970 (the invalid date, whose time value is NaN, is left out).
  A \<^verbatim>\<open>Date\<close> object is always truthy, so an optional date is falsy exactly when it
  is \<open>None\<close>. Every \<^verbatim>\<open>new Date()\<close> of the source reads the clock; the reading is an
  explicit argument of the function that makes it.
\<close>

type_synonym ContentId = string
type_synonym UserId = string
type_synonym Date = int

text \<open>
  Every failure of the source is a plain \<^verbatim>\<open>Error\<close> with a message, returned in a
  \<^verbatim>\<open>Result\<close>. The constructor records which kind of failure it is and carries
  the message of the source.
\<close>

datatype error =
    InvalidInput string
  | IllegalTransition string
  | NotFound string
  | PermissionDenied string
  | InvalidOperation string

section \<open>ContentState\<close>

datatype ContentState = Draft | Published | Private | Archived

fun getValue :: "ContentState \<Rightarrow> string" where
  "getValue Draft = ''draft''"
| "getValue Published = ''published''"
| "getValue Private = ''private''"
| "getValue Archived = ''archived''"

definition isDraft :: "ContentState \<Rightarrow> bool" where
  "isDraft s = (getValue s = ''draft'')"

definition isPublished :: "ContentState \<Rightarrow> bool" where
  "isPublished s = (getValue s = ''published'')"

definition isPrivate :: "ContentState \<Rightarrow> bool" where
  "isPrivate s = (getValue s = ''private'')"

definition isArchived :: "ContentState \<Rightarrow> bool" where
  "isArchived s = (getValue s = ''archived'')"

definition canTransitionTo :: "ContentState \<Rightarrow> ContentState \<Rightarrow> bool" where
  "canTransitionTo this newState =
     (let currentState = getValue this; targetState = getValue newState
      in if currentState = ''archived'' \<and> targetState = ''published'' then False
         else True)"

section \<open>Content\<close>

record ContentProps =
  props_id :: ContentId
  props_title :: string
  props_body :: string
  props_authorId :: UserId
  props_state :: ContentState
  props_excerpt :: "string option"
  props_publishedAt :: "Date option"
  props_updatedAt :: "Date option"

text \<open>
  The private fields of the class, read by its getters (\<^verbatim>\<open>getId\<close> is \<open>contentId\<close>,
  \<^verbatim>\<open>getTitle\<close> is \<open>title\<close>, and so on).
\<close>

record Content =
  contentId :: ContentId
  title :: string
  body :: string
  authorId :: UserId
  state :: ContentState
  excerpt :: string
  publishedAt :: "Date option"
  updatedAt :: "Date option"

definition create :: "Date \<Rightarrow> ContentProps \<Rightarrow> error + Content" where
  "create now props =
     (if length (props_title props) < 5 \<or> length (props_title props) > 100
      then Inl (InvalidInput ''Title must be between 5 and 100 characters'')
      else if length (props_body props) < 100
      then Inl (InvalidInput ''Body must be at least 100 characters'')
      else Inr \<lparr>
        contentId = props_id props,
        title = props_title props,
        body = props_body props,
        authorId = props_authorId props,
        state = props_state props,
        excerpt = (case props_excerpt props of
                     None \<Rightarrow> take 150 (props_body props)
                   | Some e \<Rightarrow> if e = [] then take 150 (props_body props) else e),
        publishedAt = props_publishedAt props,
        updatedAt = (case props_updatedAt props of
                       None \<Rightarrow> Some now
                     | Some u \<Rightarrow> Some u) \<rparr>)"

definition updateTitle :: "Date \<Rightarrow> Content \<Rightarrow> string \<Rightarrow> error + Content" where
  "updateTitle now this newTitle =
     (if length newTitle < 5 \<or> length newTitle > 100
      then Inl (InvalidInput ''Title must be between 5 and 100 characters'')
      else Inr (this\<lparr>title := newTitle, updatedAt := Some now\<rparr>))"

definition updateBody :: "Date \<Rightarrow> Content \<Rightarrow> string \<Rightarrow> error + Content" where
  "updateBody now this newBody =
     (if length newBody < 100
      then Inl (InvalidInput ''Body must be at least 100 characters'')
      else let newExcerpt =
                 (if excerpt this = take 150 (body this) then take 150 newBody
                  else excerpt this)
           in Inr (this\<lparr>body := newBody, excerpt := newExcerpt, updatedAt := Some now\<rparr>))"

definition updateExcerpt :: "Date \<Rightarrow> Content \<Rightarrow> string \<Rightarrow> error + Content" where
  "updateExcerpt now this newExcerpt =
     Inr (this\<lparr>excerpt := newExcerpt, updatedAt := Some now\<rparr>)"

definition changeState :: "Date \<Rightarrow> Content \<Rightarrow> ContentState \<Rightarrow> error + Content" where
  "changeState now this newState =
     (if \<not> canTransitionTo (state this) newState
      then Inl (IllegalTransition
                  (''Cannot transition from '' @ getValue (state this)
                     @ '' to '' @ getValue newState))
      else let stamp =
                 (if isPublished newState \<and> publishedAt this = None then Some now
                  else publishedAt this)
           in Inr (this\<lparr>state := newState, publishedAt := stamp, updatedAt := Some now\<rparr>))"

definition publish :: "Date \<Rightarrow> Content \<Rightarrow> error + Content" where
  "publish now this = changeState now this Published"

definition unpublish :: "Date \<Rightarrow> Content \<Rightarrow> error + Content" where
  "unpublish now this = changeState now this Private"

definition archive :: "Date \<Rightarrow> Content \<Rightarrow> error + Content" where
  "archive now this = changeState now this Archived"

definition isOwnedBy :: "Content \<Rightarrow> UserId \<Rightarrow> bool" where
  "isOwnedBy this userId = (authorId this = userId)"

text \<open>
  A caller that holds an instance and makes state-changing calls on it one after the
  other, each at its own clock reading: a successful call hands over the new instance,
  a failed one leaves the caller with the instance it had.
\<close>

datatype StateCall = ChangeState ContentState | Publish | Unpublish | Archive

fun stateCall :: "Date \<Rightarrow> Content \<Rightarrow> StateCall \<Rightarrow> error + Content" where
  "stateCall now c (ChangeState s) = changeState now c s"
| "stateCall now c Publish = publish now c"
| "stateCall now c Unpublish = unpublish now c"
| "stateCall now c Archive = archive now c"

fun stateCalls :: "Content \<Rightarrow> (Date \<times> StateCall) list \<Rightarrow> Content" where
  "stateCalls c [] = c"
| "stateCalls c ((now, k) # ks) =
     (case stateCall now c k of
        Inl e \<Rightarrow> stateCalls c ks
      | Inr c' \<Rightarrow> stateCalls c' ks)"

section \<open>DefaultContentPermissions\<close>

definition canEdit :: "Content \<Rightarrow> UserId \<Rightarrow> string \<Rightarrow> bool" where
  "canEdit content userId userRole =
     (if userRole = ''Author'' \<and> isOwnedBy content userId then True
      else if userRole = ''Editor'' \<or> userRole = ''Admin'' then True
      else False)"

definition canDelete :: "Content \<Rightarrow> UserId \<Rightarrow> string \<Rightarrow> bool" where
  "canDelete content userId userRole =
     (if userRole = ''Admin'' then True
      else if userRole = ''Author'' \<and> isOwnedBy content userId
                \<and> \<not> isPublished (state content) then True
      else if userRole = ''Editor'' \<and> \<not> isPublished (state content) then True
      else False)"

definition canPublish :: "Content \<Rightarrow> UserId \<Rightarrow> string \<Rightarrow> bool" where
  "canPublish content userId userRole =
     (if userRole = ''Author'' \<and> isOwnedBy content userId then True
      else if userRole = ''Editor'' \<or> userRole = ''Admin'' then True
      else False)"

section \<open>InMemoryContentRepository\<close>

text \<open>
  A JavaScript \<^verbatim>\<open>Map\<close> keeps its entries in insertion order: \<^verbatim>\<open>set\<close> on a key that is
  present replaces the value where it stands, \<^verbatim>\<open>set\<close> on a new key appends an entry,
  \<^verbatim>\<open>delete\<close> removes the entry, and \<^verbatim>\<open>values()\<close> lists the values in entry order.
\<close>

type_synonym ('k, 'v) js_map = "('k \<times> 'v) list"

fun map_get :: "('k, 'v) js_map \<Rightarrow> 'k \<Rightarrow> 'v option" where
  "map_get [] k = None"
| "map_get ((k', v) # m) k = (if k' = k then Some v else map_get m k)"

definition map_has :: "('k, 'v) js_map \<Rightarrow> 'k \<Rightarrow> bool" where
  "map_has m k = (map_get m k \<noteq> None)"

fun map_set :: "('k, 'v) js_map \<Rightarrow> 'k \<Rightarrow> 'v \<Rightarrow> ('k, 'v) js_map" where
  "map_set [] k v = [(k, v)]"
| "map_set ((k', v') # m) k v =
     (if k' = k then (k, v) # m else (k', v') # map_set m k v)"

definition map_delete :: "('k, 'v) js_map \<Rightarrow> 'k \<Rightarrow> ('k, 'v) js_map" where
  "map_delete m k = filter (\<lambda>entry. fst entry \<noteq> k) m"

definition map_values :: "('k, 'v) js_map \<Rightarrow> 'v list" where
  "map_values m = map snd m"

text \<open>
  \<^verbatim>\<open>xs.slice(start, end)\<close> on integral arguments: a negative index counts from the end,
  and both indices are clamped to the array.
\<close>

definition slice :: "'a list \<Rightarrow> int \<Rightarrow> int option \<Rightarrow> 'a list" where
  "slice xs start fin =
     (let len = int (length xs);
          k = (if start < 0 then max (len + start) 0 else min start len);
          final = (case fin of
                     None \<Rightarrow> len
                   | Some e \<Rightarrow> if e < 0 then max (len + e) 0 else min e len)
      in take (nat (final - k)) (drop (nat k) xs))"

text \<open>
  \<^verbatim>\<open>xs.sort(cmp)\<close> is a stable sort: with a comparator that orders the elements by a
  key, the result is the one list that is ordered by \<open>cmp\<close> and keeps elements that
  compare equal in the order they had. Insertion from the right computes it.
\<close>

fun sort_insert :: "('a \<Rightarrow> 'a \<Rightarrow> int) \<Rightarrow> 'a \<Rightarrow> 'a list \<Rightarrow> 'a list" where
  "sort_insert cmp x [] = [x]"
| "sort_insert cmp x (y # ys) =
     (if cmp x y \<le> 0 then x # y # ys else y # sort_insert cmp x ys)"

definition array_sort :: "('a \<Rightarrow> 'a \<Rightarrow> int) \<Rightarrow> 'a list \<Rightarrow> 'a list" where
  "array_sort cmp xs = foldr (sort_insert cmp) xs []"

record ContentSearchCriteria =
  crit_authorId :: "UserId option"
  crit_state :: "ContentState option"
  crit_featured :: "bool option"
  crit_publishedAfter :: "Date option"
  crit_publishedBefore :: "Date option"
  crit_limit :: "int option"
  crit_offset :: "int option"

record InMemoryContentRepository =
  contents :: "(ContentId, Content) js_map"
  deletedContents :: "ContentId set"

definition emptyRepository :: InMemoryContentRepository where
  "emptyRepository = \<lparr>contents = [], deletedContents = {}\<rparr>"

definition findById :: "InMemoryContentRepository \<Rightarrow> ContentId \<Rightarrow> error + Content option" where
  "findById this ident =
     (if ident \<in> deletedContents this then Inr None
      else Inr (map_get (contents this) ident))"

definition findByAuthor :: "InMemoryContentRepository \<Rightarrow> UserId \<Rightarrow> error + Content list" where
  "findByAuthor this author =
     Inr (filter (\<lambda>content. authorId content = author)
           (filter (\<lambda>content. contentId content \<notin> deletedContents this)
             (map_values (contents this))))"

definition findPublished ::
  "InMemoryContentRepository \<Rightarrow> ContentSearchCriteria option \<Rightarrow> error + Content list" where
  "findPublished this criteria =
     (let found = filter (\<lambda>content. isPublished (state content))
                    (filter (\<lambda>content. contentId content \<notin> deletedContents this)
                      (map_values (contents this)))
      in case criteria of
           None \<Rightarrow> Inr found
         | Some cr \<Rightarrow>
             let c1 = (case crit_authorId cr of
                         None \<Rightarrow> found
                       | Some a \<Rightarrow> if a = [] then found
                                   else filter (\<lambda>content. authorId content = a) found);
                 c2 = (case crit_publishedAfter cr of
                         None \<Rightarrow> c1
                       | Some after \<Rightarrow>
                           filter (\<lambda>content. case publishedAt content of
                                                None \<Rightarrow> False
                                              | Some p \<Rightarrow> p \<ge> after) c1);
                 c3 = (case crit_publishedBefore cr of
                         None \<Rightarrow> c2
                       | Some before \<Rightarrow>
                           filter (\<lambda>content. case publishedAt content of
                                                None \<Rightarrow> False
                                              | Some p \<Rightarrow> p \<le> before) c2);
                 c4 = (case crit_offset cr of
                         None \<Rightarrow> c3
                       | Some off \<Rightarrow> if off = 0 then c3 else slice c3 off None);
                 c5 = (case crit_limit cr of
                         None \<Rightarrow> c4
                       | Some lim \<Rightarrow> if lim = 0 then c4 else slice c4 0 (Some lim))
             in Inr c5)"

text \<open>
  The sort key of \<^verbatim>\<open>findFeatured\<close>, \<^verbatim>\<open>x.getPublishedAt()?.getTime() || 0\<close>: the time
  value of the date, and 0 when there is no date (\<^verbatim>\<open>t || 0\<close> is \<open>t\<close> for every
  number \<open>t\<close>, 0 included).
\<close>

definition featuredTime :: "Content \<Rightarrow> int" where
  "featuredTime x = (case publishedAt x of None \<Rightarrow> 0 | Some d \<Rightarrow> if d = 0 then 0 else d)"

definition featuredCompare :: "Content \<Rightarrow> Content \<Rightarrow> int" where
  "featuredCompare a b =
     (let aTime = featuredTime a; bTime = featuredTime b in bTime - aTime)"

definition findFeatured :: "InMemoryContentRepository \<Rightarrow> error + Content list" where
  "findFeatured this =
     (case findPublished this None of
        Inl e \<Rightarrow> Inl e
      | Inr published \<Rightarrow> Inr (slice (array_sort featuredCompare published) 0 (Some 5)))"

definition save ::
  "InMemoryContentRepository \<Rightarrow> Content \<Rightarrow> (error + unit) \<times> InMemoryContentRepository" where
  "save this content =
     (Inr (), this\<lparr>contents := map_set (contents this) (contentId content) content\<rparr>)"

definition softDelete ::
  "InMemoryContentRepository \<Rightarrow> ContentId \<Rightarrow> (error + unit) \<times> InMemoryContentRepository" where
  "softDelete this ident =
     (case map_get (contents this) ident of
        None \<Rightarrow> (Inl (NotFound ''Content not found''), this)
      | Some content \<Rightarrow>
          if \<not> isPublished (state content)
          then (Inl (InvalidOperation ''Only published content can be soft deleted''), this)
          else (Inr (), this\<lparr>deletedContents := insert ident (deletedContents this)\<rparr>))"

definition delete ::
  "InMemoryContentRepository \<Rightarrow> ContentId \<Rightarrow> (error + unit) \<times> InMemoryContentRepository" where
  "delete this ident =
     (case map_get (contents this) ident of
        None \<Rightarrow> (Inl (NotFound ''Content not found''), this)
      | Some content \<Rightarrow>
          if isPublished (state content)
          then (Inl (InvalidOperation ''Published content cannot be hard deleted''), this)
          else (Inr (), this\<lparr>contents := map_delete (contents this) ident\<rparr>))"

definition countFeatured :: "InMemoryContentRepository \<Rightarrow> error + nat" where
  "countFeatured this =
     (case findFeatured this of
        Inl e \<Rightarrow> Inl e
      | Inr featured \<Rightarrow> Inr (length featured))"

definition exists :: "InMemoryContentRepository \<Rightarrow> ContentId \<Rightarrow> error + bool" where
  "exists this ident =
     Inr (map_has (contents this) ident \<and> ident \<notin> deletedContents this)"

text \<open>
  The calls of the repository contract that can change the store, for running a
  sequence of them (the finders, \<^verbatim>\<open>countFeatured\<close> and \<^verbatim>\<open>exists\<close> only read it).
\<close>

datatype RepositoryCall = Save Content | SoftDelete ContentId | Delete ContentId

fun repositoryCall :: "RepositoryCall \<Rightarrow> InMemoryContentRepository \<Rightarrow> InMemoryContentRepository" where
  "repositoryCall (Save content) this = snd (save this content)"
| "repositoryCall (SoftDelete ident) this = snd (softDelete this ident)"
| "repositoryCall (Delete ident) this = snd (delete this ident)"

definition repositoryCalls ::
  "RepositoryCall list \<Rightarrow> InMemoryContentRepository \<Rightarrow> InMemoryContentRepository" where
  "repositoryCalls calls this = fold repositoryCall calls this"

section \<open>ContentService\<close>

text \<open>
  The service holds a \<^verbatim>\<open>ContentRepository\<close> and a \<^verbatim>\<open>ContentPermissions\<close>, both
  injected. The repository is any implementation of the interface: a store of some
  type \<open>'r\<close> with operations that return a result and the store they leave. Of the
  interface, these are the operations that \<^verbatim>\<open>publishContent\<close>, \<^verbatim>\<open>deleteContent\<close>
  and \<^verbatim>\<open>updateContent\<close> call.
\<close>

record 'r ContentRepository =
  repo_findById :: "'r \<Rightarrow> ContentId \<Rightarrow> (error + Content option) \<times> 'r"
  repo_save :: "'r \<Rightarrow> Content \<Rightarrow> (error + unit) \<times> 'r"
  repo_softDelete :: "'r \<Rightarrow> ContentId \<Rightarrow> (error + unit) \<times> 'r"
  repo_delete :: "'r \<Rightarrow> ContentId \<Rightarrow> (error + unit) \<times> 'r"

record ContentPermissions =
  perm_canEdit :: "Content \<Rightarrow> UserId \<Rightarrow> string \<Rightarrow> bool"
  perm_canDelete :: "Content \<Rightarrow> UserId \<Rightarrow> string \<Rightarrow> bool"
  perm_canPublish :: "Content \<Rightarrow> UserId \<Rightarrow> string \<Rightarrow> bool"

text \<open>The two bindings of the container.\<close>

definition inMemoryContentRepository :: "InMemoryContentRepository ContentRepository" where
  "inMemoryContentRepository = \<lparr>
     repo_findById = (\<lambda>this ident. (findById this ident, this)),
     repo_save = save,
     repo_softDelete = softDelete,
     repo_delete = delete \<rparr>"

definition defaultContentPermissions :: ContentPermissions where
  "defaultContentPermissions = \<lparr>
     perm_canEdit = canEdit,
     perm_canDelete = canDelete,
     perm_canPublish = canPublish \<rparr>"

record ContentUpdates =
  upd_title :: "string option"
  upd_body :: "string option"
  upd_excerpt :: "string option"

text \<open>
  \<^verbatim>\<open>publishContent\<close>; \<open>now\<close> is the clock reading of \<^verbatim>\<open>content.publish()\<close>.
\<close>

definition publishContent ::
  "'r ContentRepository \<Rightarrow> ContentPermissions \<Rightarrow> Date \<Rightarrow> 'r \<Rightarrow> ContentId \<Rightarrow> UserId \<Rightarrow> string
     \<Rightarrow> (error + Content) \<times> 'r" where
  "publishContent repository permissions now r cid userId userRole =
     (case repo_findById repository r cid of
        (Inl e, r1) \<Rightarrow> (Inl e, r1)
      | (Inr None, r1) \<Rightarrow> (Inl (NotFound ''Content not found''), r1)
      | (Inr (Some content), r1) \<Rightarrow>
          if \<not> perm_canPublish permissions content userId userRole
          then (Inl (PermissionDenied ''Permission denied: cannot publish content''), r1)
          else (case publish now content of
                  Inl e \<Rightarrow> (Inl e, r1)
                | Inr published \<Rightarrow>
                    (case repo_save repository r1 published of
                       (Inl e, r2) \<Rightarrow> (Inl e, r2)
                     | (Inr u, r2) \<Rightarrow> (Inr published, r2))))"

definition deleteContent ::
  "'r ContentRepository \<Rightarrow> ContentPermissions \<Rightarrow> 'r \<Rightarrow> ContentId \<Rightarrow> UserId \<Rightarrow> string
     \<Rightarrow> (error + unit) \<times> 'r" where
  "deleteContent repository permissions r cid userId userRole =
     (case repo_findById repository r cid of
        (Inl e, r1) \<Rightarrow> (Inl e, r1)
      | (Inr None, r1) \<Rightarrow> (Inl (NotFound ''Content not found''), r1)
      | (Inr (Some content), r1) \<Rightarrow>
          if \<not> perm_canDelete permissions content userId userRole
          then (Inl (PermissionDenied ''Permission denied: cannot delete content''), r1)
          else if isPublished (state content) then repo_softDelete repository r1 cid
          else repo_delete repository r1 cid)"

text \<open>
  \<^verbatim>\<open>updateContent\<close>; \<open>tT\<close>, \<open>tB\<close> and \<open>tE\<close> are the clock readings of the calls of
  \<^verbatim>\<open>updateTitle\<close>, \<^verbatim>\<open>updateBody\<close> and \<^verbatim>\<open>updateExcerpt\<close>. Each of the three blocks
  \<^verbatim>\<open>if (updates.f) { ... }\<close> runs when the field is truthy: present and not the empty
  string.
\<close>

definition updateContent ::
  "'r ContentRepository \<Rightarrow> ContentPermissions \<Rightarrow> Date \<Rightarrow> Date \<Rightarrow> Date \<Rightarrow> 'r \<Rightarrow> ContentId
     \<Rightarrow> ContentUpdates \<Rightarrow> UserId \<Rightarrow> string \<Rightarrow> (error + Content) \<times> 'r" where
  "updateContent repository permissions tT tB tE r cid updates userId userRole =
     (case repo_findById repository r cid of
        (Inl e, r1) \<Rightarrow> (Inl e, r1)
      | (Inr None, r1) \<Rightarrow> (Inl (NotFound ''Content not found''), r1)
      | (Inr (Some content0), r1) \<Rightarrow>
          if \<not> perm_canEdit permissions content0 userId userRole
          then (Inl (PermissionDenied ''Permission denied: cannot edit content''), r1)
          else
            (case (case upd_title updates of
                     None \<Rightarrow> Inr content0
                   | Some t \<Rightarrow> if t = [] then Inr content0 else updateTitle tT content0 t) of
               Inl e \<Rightarrow> (Inl e, r1)
             | Inr content1 \<Rightarrow>
            (case (case upd_body updates of
                     None \<Rightarrow> Inr content1
                   | Some b \<Rightarrow> if b = [] then Inr content1 else updateBody tB content1 b) of
               Inl e \<Rightarrow> (Inl e, r1)
             | Inr content2 \<Rightarrow>
            (case (case upd_excerpt updates of
                     None \<Rightarrow> Inr content2
                   | Some x \<Rightarrow> if x = [] then Inr content2 else updateExcerpt tE content2 x) of
               Inl e \<Rightarrow> (Inl e, r1)
             | Inr content3 \<Rightarrow>
            (case repo_save repository r1 content3 of
               (Inl e, r2) \<Rightarrow> (Inl e, r2)
             | (Inr u, r2) \<Rightarrow> (Inr content3, r2))))))"

text \<open>
  The field updates a call requests, in the order title, body, excerpt: a field that is
  absent or the empty string requests none. Applying a list of updates in order stops
  at the first one that fails.
\<close>

definition requestedUpdates ::
  "Date \<Rightarrow> Date \<Rightarrow> Date \<Rightarrow> ContentUpdates \<Rightarrow> (Content \<Rightarrow> error + Content) list" where
  "requestedUpdates tT tB tE updates =
     (case upd_title updates of
        None \<Rightarrow> []
      | Some t \<Rightarrow> if t = [] then [] else [\<lambda>content. updateTitle tT content t])
     @ (case upd_body updates of
          None \<Rightarrow> []
        | Some b \<Rightarrow> if b = [] then [] else [\<lambda>content. updateBody tB content b])
     @ (case upd_excerpt updates of
          None \<Rightarrow> []
        | Some x \<Rightarrow> if x = [] then [] else [\<lambda>content. updateExcerpt tE content x])"

fun applyInOrder :: "(Content \<Rightarrow> error + Content) list \<Rightarrow> Content \<Rightarrow> error + Content" where
  "applyInOrder [] content = Inr content"
| "applyInOrder (f # fs) content =
     (case f content of
        Inl e \<Rightarrow> Inl e
      | Inr content' \<Rightarrow> applyInOrder fs content')"

text \<open>The updates with every field that is the empty string left out.\<close>

definition omitEmpty :: "ContentUpdates \<Rightarrow> ContentUpdates" where
  "omitEmpty updates = \<lparr>
     upd_title = (if upd_title updates = Some [] then None else upd_title updates),
     upd_body = (if upd_body updates = Some [] then None else upd_body updates),
     upd_excerpt = (if upd_excerpt updates = Some [] then None else upd_excerpt updates) \<rparr>"

section \<open>Readings of the specification\<close>

text \<open>
  The field updates a call supplies, read as the specification words them: every field
  that is present is an update to apply, in the order title, body, excerpt.
\<close>

definition suppliedUpdates ::
  "Date \<Rightarrow> Date \<Rightarrow> Date \<Rightarrow> ContentUpdates \<Rightarrow> (Content \<Rightarrow> error + Content) list" where
  "suppliedUpdates tT tB tE updates =
     (case upd_title updates of
        None \<Rightarrow> []
      | Some t \<Rightarrow> [\<lambda>content. updateTitle tT content t])
     @ (case upd_body updates of
          None \<Rightarrow> []
        | Some b \<Rightarrow> [\<lambda>content. updateBody tB content b])
     @ (case upd_excerpt updates of
          None \<Rightarrow> []
        | Some x \<Rightarrow> [\<lambda>content. updateExcerpt tE content x])"

text \<open>
  The order of the specification on \<^verbatim>\<open>publishedAt\<close>, descending with an undated record
  as oldest: \<open>a\<close> may stand before \<open>b\<close> when \<open>b\<close> is undated, or both are dated and
  \<open>a\<close> is not the earlier one.
\<close>

definition notOlderThan :: "Content \<Rightarrow> Content \<Rightarrow> bool" where
  "notOlderThan a b =
     (case publishedAt b of
        None \<Rightarrow> True
      | Some tb \<Rightarrow> (case publishedAt a of None \<Rightarrow> False | Some ta \<Rightarrow> tb \<le> ta))"

section \<open>Example data\<close>

definition exampleBody :: string where
  "exampleBody = replicate 120 (CHR ''x'')"

definition otherBody :: string where
  "otherBody = replicate 130 (CHR ''y'')"

definition exampleProps :: ContentProps where
  "exampleProps = \<lparr>
     props_id = ''content-1'',
     props_title = ''Test Content'',
     props_body = exampleBody,
     props_authorId = ''user-1'',
     props_state = Draft,
     props_excerpt = None,
     props_publishedAt = None,
     props_updatedAt = None \<rparr>"

text \<open>The instance that \<open>create 1000 exampleProps\<close> returns.\<close>

definition exampleContent :: Content where
  "exampleContent = \<lparr>
     contentId = ''content-1'',
     title = ''Test Content'',
     body = exampleBody,
     authorId = ''user-1'',
     state = Draft,
     excerpt = exampleBody,
     publishedAt = None,
     updatedAt = Some 1000 \<rparr>"

text \<open>A store with a published record, \<open>content-1\<close>, and a draft, \<open>content-2\<close>.\<close>

definition exampleRepository :: InMemoryContentRepository where
  "exampleRepository =
     repositoryCalls
       [Save (exampleContent\<lparr>state := Published\<rparr>),
        Save (exampleContent\<lparr>contentId := ''content-2''\<rparr>)]
       emptyRepository"

text \<open>
  Two published records, one dated a millisecond before the epoch and one with no
  date, and the store that holds them.
\<close>

definition preEpochContent :: Content where
  "preEpochContent =
     exampleContent\<lparr>contentId := ''content-3'', state := Published, publishedAt := Some (- 1)\<rparr>"

definition undatedContent :: Content where
  "undatedContent = exampleContent\<lparr>contentId := ''content-4'', state := Published\<rparr>"

definition featuredRepository :: InMemoryContentRepository where
  "featuredRepository =
     repositoryCalls [Save preEpochContent, Save undatedContent] emptyRepository"

section \<open>Properties of ContentState and Content\<close>

lemma isPublished_iff: "isPublished s \<longleftrightarrow> s = Published"
  by (cases s) (simp_all add: isPublished_def)

lemma canTransitionTo_iff:
  "canTransitionTo a b \<longleftrightarrow> \<not> (a = Archived \<and> b = Published)"
  by (cases a; cases b) (simp_all add: canTransitionTo_def)

lemma create_example: "create 1000 exampleProps = Inr exampleContent"
  by (simp add: create_def exampleProps_def exampleContent_def exampleBody_def)

text \<open>
  Claim C2. Of the sixteen ordered pairs of states, \<^verbatim>\<open>a.canTransitionTo(b)\<close> is false
  for the pair (archived, published) and true for every other pair, self-loops
  included.
\<close>

theorem canTransitionTo_single_forbidden_edge:
  "canTransitionTo a b = (\<not> (a = Archived \<and> b = Published)) \<and> canTransitionTo a a"
  by (simp add: canTransitionTo_iff)

text \<open>
  Claim C4. \<^verbatim>\<open>Content.create\<close> returns an instance exactly when the title has between
  5 and 100 characters and the body at least 100; on every other input it returns an
  \<^verbatim>\<open>InvalidInput\<close> failure, and so no instance.
\<close>

theorem create_succeeds_iff_lengths_valid:
  "((\<exists>c. create now p = Inr c) \<longleftrightarrow>
      5 \<le> length (props_title p) \<and> length (props_title p) \<le> 100
      \<and> 100 \<le> length (props_body p))
   \<and> (length (props_title p) < 5 \<or> length (props_title p) > 100 \<or> length (props_body p) < 100
        \<longrightarrow> (\<exists>m. create now p = Inl (InvalidInput m)))"
  by (auto simp: create_def)

theorem create_succeeds_iff_lengths_valid_witness:
  "(\<exists>c. create 1000 exampleProps = Inr c)
   \<and> (\<exists>m. create 1000 (exampleProps\<lparr>props_title := ''Test''\<rparr>) = Inl (InvalidInput m))
   \<and> (\<exists>m. create 1000 (exampleProps\<lparr>props_title := replicate 101 (CHR ''t'')\<rparr>)
            = Inl (InvalidInput m))
   \<and> (\<exists>m. create 1000 (exampleProps\<lparr>props_body := replicate 99 (CHR ''x'')\<rparr>)
            = Inl (InvalidInput m))"
proof -
  have ok: "5 \<le> length (props_title exampleProps) \<and> length (props_title exampleProps) \<le> 100
      \<and> 100 \<le> length (props_body exampleProps)"
    by (simp add: exampleProps_def exampleBody_def)
  have short: "length (props_title (exampleProps\<lparr>props_title := ''Test''\<rparr>)) < 5"
    by simp
  have long: "length (props_title (exampleProps\<lparr>props_title := replicate 101 (CHR ''t'')\<rparr>)) > 100"
    by simp
  have body: "length (props_body (exampleProps\<lparr>props_body := replicate 99 (CHR ''x'')\<rparr>)) < 100"
    by simp
  show ?thesis
    using ok short long body
      create_succeeds_iff_lengths_valid [of 1000 exampleProps]
      create_succeeds_iff_lengths_valid [of 1000 "exampleProps\<lparr>props_title := ''Test''\<rparr>"]
      create_succeeds_iff_lengths_valid
        [of 1000 "exampleProps\<lparr>props_title := replicate 101 (CHR ''t'')\<rparr>"]
      create_succeeds_iff_lengths_valid
        [of 1000 "exampleProps\<lparr>props_body := replicate 99 (CHR ''x'')\<rparr>"]
    by blast
qed

text \<open>
  Claim C7. \<^verbatim>\<open>updateBody(newBody)\<close> with a new body of at least 100 characters
  succeeds, and the excerpt of the result is the first 150 characters of the new body
  when the current excerpt equals the first 150 characters of the old body, and the
  current excerpt otherwise; with a shorter new body it fails with \<^verbatim>\<open>InvalidInput\<close>.
\<close>

theorem updateBody_excerpt_rule:
  "(100 \<le> length newBody \<longrightarrow>
      (\<exists>c'. updateBody now c newBody = Inr c' \<and> body c' = newBody
         \<and> excerpt c' = (if excerpt c = take 150 (body c) then take 150 newBody else excerpt c)))
   \<and> (length newBody < 100 \<longrightarrow> (\<exists>m. updateBody now c newBody = Inl (InvalidInput m)))"
  by (simp add: updateBody_def Let_def)

theorem updateBody_excerpt_rule_witness:
  "(\<exists>c'. updateBody 2000 exampleContent otherBody = Inr c' \<and> excerpt c' = otherBody)
   \<and> (\<exists>c'. updateBody 2000 (exampleContent\<lparr>excerpt := ''Summary''\<rparr>) otherBody = Inr c'
            \<and> excerpt c' = ''Summary'')
   \<and> (\<exists>m. updateBody 2000 exampleContent ''too short'' = Inl (InvalidInput m))"
proof -
  have len: "100 \<le> length otherBody" "take 150 otherBody = otherBody"
    by (simp_all add: otherBody_def)
  have auto_derived: "excerpt exampleContent = take 150 (body exampleContent)"
    by (simp add: exampleContent_def exampleBody_def)
  have "length (excerpt (exampleContent\<lparr>excerpt := ''Summary''\<rparr>))
          \<noteq> length (take 150 (body (exampleContent\<lparr>excerpt := ''Summary''\<rparr>)))"
    by (simp add: exampleContent_def exampleBody_def)
  then have hand_set: "excerpt (exampleContent\<lparr>excerpt := ''Summary''\<rparr>)
          \<noteq> take 150 (body (exampleContent\<lparr>excerpt := ''Summary''\<rparr>))"
    by metis
  have short: "length ''too short'' < 100"
    by simp
  have e: "excerpt (exampleContent\<lparr>excerpt := ''Summary''\<rparr>) = ''Summary''"
    by simp
  show ?thesis
    using len auto_derived hand_set short e
      updateBody_excerpt_rule [where newBody = otherBody and now = 2000 and c = exampleContent]
      updateBody_excerpt_rule [where newBody = otherBody and now = 2000
        and c = "exampleContent\<lparr>excerpt := ''Summary''\<rparr>"]
      updateBody_excerpt_rule [where newBody = "''too short''" and now = 2000
        and c = exampleContent]
    by (metis (full_types))
qed

lemma changeState_publishedAt:
  "changeState now c s = Inr c' \<Longrightarrow>
     publishedAt c' = (if isPublished s \<and> publishedAt c = None then Some now else publishedAt c)"
  by (auto simp: changeState_def Let_def split: if_splits)

lemma stateCall_changeState:
  "stateCall now c k =
     changeState now c
       (case k of ChangeState s \<Rightarrow> s | Publish \<Rightarrow> Published | Unpublish \<Rightarrow> Private
        | Archive \<Rightarrow> Archived)"
  by (cases k) (simp_all add: publish_def unpublish_def archive_def)

lemma stateCall_keeps_publishedAt:
  "publishedAt c = Some t \<Longrightarrow> stateCall now c k = Inr c' \<Longrightarrow> publishedAt c' = Some t"
  by (simp add: stateCall_changeState changeState_publishedAt)

lemma stateCalls_keep_publishedAt:
  "publishedAt c = Some t \<Longrightarrow> publishedAt (stateCalls c ks) = Some t"
proof (induction ks arbitrary: c)
  case Nil
  then show ?case by simp
next
  case (Cons a ks)
  obtain now k where a: "a = (now, k)" by (cases a)
  show ?case
  proof (cases "stateCall now c k")
    case (Inl e)
    with Cons a show ?thesis by simp
  next
    case (Inr c')
    with Cons.prems have "publishedAt c' = Some t"
      by (rule stateCall_keeps_publishedAt)
    with Cons.IH Inr a show ?thesis by simp
  qed
qed

text \<open>
  Claim C3. A successful \<^verbatim>\<open>changeState\<close> changes \<^verbatim>\<open>publishedAt\<close> in one case only:
  the target is published and the date was unset, and then it is set to the clock
  reading; so a date that is set is never cleared or overwritten. On an instance whose
  \<^verbatim>\<open>publishedAt\<close> is set, every successful \<^verbatim>\<open>changeState\<close>, \<^verbatim>\<open>publish\<close>,
  \<^verbatim>\<open>unpublish\<close> or \<^verbatim>\<open>archive\<close> returns an instance with the same date, and so does
  any sequence of such calls, failed ones included.
\<close>

theorem publishedAt_set_once:
  "(changeState now c s = Inr c1 \<longrightarrow>
      publishedAt c1 =
        (if isPublished s \<and> publishedAt c = None then Some now else publishedAt c))
   \<and> (publishedAt d = Some t \<and> stateCall now' d k = Inr d1 \<longrightarrow> publishedAt d1 = Some t)
   \<and> (publishedAt d = Some t \<longrightarrow> publishedAt (stateCalls d ks) = Some t)"
  using changeState_publishedAt [of now c s c1] stateCall_keeps_publishedAt [of d t now' k d1]
    stateCalls_keep_publishedAt [of d t ks]
  by blast

theorem publishedAt_set_once_witness:
  "changeState 2000 exampleContent Published
     = Inr (exampleContent\<lparr>state := Published, publishedAt := Some 2000, updatedAt := Some 2000\<rparr>)
   \<and> stateCall 3000 (exampleContent\<lparr>state := Published, publishedAt := Some 2000\<rparr>) Unpublish
     = Inr (exampleContent\<lparr>state := Private, publishedAt := Some 2000, updatedAt := Some 3000\<rparr>)
   \<and> publishedAt
       (stateCalls (exampleContent\<lparr>state := Published, publishedAt := Some 2000\<rparr>)
          [(3000, Unpublish), (4000, Publish), (5000, Unpublish), (6000, Publish),
           (7000, Archive), (8000, Publish), (9000, ChangeState Draft)])
     = Some 2000
   \<and> state
       (stateCalls (exampleContent\<lparr>state := Published, publishedAt := Some 2000\<rparr>)
          [(3000, Unpublish), (4000, Publish), (5000, Unpublish), (6000, Publish),
           (7000, Archive), (8000, Publish), (9000, ChangeState Draft)])
     = Draft"
  using publishedAt_set_once
    [where now = 2000 and c = exampleContent and s = Published
       and ?c1.0 = "exampleContent\<lparr>state := Published, publishedAt := Some 2000,
                                     updatedAt := Some 2000\<rparr>"
       and d = "exampleContent\<lparr>state := Published, publishedAt := Some 2000\<rparr>"
       and t = 2000 and now' = 3000 and k = Unpublish
       and ?d1.0 = "exampleContent\<lparr>state := Private, publishedAt := Some 2000,
                                     updatedAt := Some 3000\<rparr>"
       and ks = "[(3000, Unpublish), (4000, Publish), (5000, Unpublish), (6000, Publish),
                  (7000, Archive), (8000, Publish), (9000, ChangeState Draft)]"]
  by (simp add: changeState_def publish_def unpublish_def archive_def canTransitionTo_def
        isPublished_def exampleContent_def)

section \<open>Properties of DefaultContentPermissions\<close>

text \<open>
  Claim C6. \<^verbatim>\<open>canDelete\<close> is true exactly for an Admin, for an Author who owns the
  content when it is not published, and for an Editor when it is not published; in
  particular an Editor may never delete published content.
\<close>

theorem canDelete_iff:
  "(canDelete content userId userRole \<longleftrightarrow>
      userRole = ''Admin''
      \<or> (userRole = ''Author'' \<and> isOwnedBy content userId \<and> \<not> isPublished (state content))
      \<or> (userRole = ''Editor'' \<and> \<not> isPublished (state content)))
   \<and> (isPublished (state content) \<longrightarrow> \<not> canDelete content userId ''Editor'')"
  by (auto simp: canDelete_def)

theorem canDelete_iff_witness:
  "canDelete (exampleContent\<lparr>state := Published\<rparr>) ''user-9'' ''Admin''
   \<and> canDelete exampleContent ''user-1'' ''Author''
   \<and> \<not> canDelete exampleContent ''user-2'' ''Author''
   \<and> \<not> canDelete (exampleContent\<lparr>state := Published\<rparr>) ''user-1'' ''Author''
   \<and> canDelete exampleContent ''user-2'' ''Editor''
   \<and> isPublished (state (exampleContent\<lparr>state := Published\<rparr>))
   \<and> \<not> canDelete (exampleContent\<lparr>state := Published\<rparr>) ''user-2'' ''Editor''
   \<and> \<not> canDelete exampleContent ''user-1'' ''Guest''"
  using canDelete_iff [of "exampleContent\<lparr>state := Published\<rparr>" "''user-9''" "''Admin''"]
    canDelete_iff [of exampleContent "''user-1''" "''Author''"]
    canDelete_iff [of exampleContent "''user-2''" "''Author''"]
    canDelete_iff [of "exampleContent\<lparr>state := Published\<rparr>" "''user-1''" "''Author''"]
    canDelete_iff [of exampleContent "''user-2''" "''Editor''"]
    canDelete_iff [of "exampleContent\<lparr>state := Published\<rparr>" "''user-2''" "''Editor''"]
    canDelete_iff [of exampleContent "''user-1''" "''Guest''"]
  by (simp add: isOwnedBy_def isPublished_def exampleContent_def)

section \<open>Properties of InMemoryContentRepository\<close>

lemma exampleRepository_eq:
  "exampleRepository =
     \<lparr>contents = [(''content-1'', exampleContent\<lparr>state := Published\<rparr>),
                  (''content-2'', exampleContent\<lparr>contentId := ''content-2''\<rparr>)],
      deletedContents = {}\<rparr>"
  by (simp add: exampleRepository_def repositoryCalls_def emptyRepository_def save_def
        exampleContent_def)

lemma featuredRepository_eq:
  "featuredRepository =
     \<lparr>contents = [(''content-3'', preEpochContent), (''content-4'', undatedContent)],
      deletedContents = {}\<rparr>"
  by (simp add: featuredRepository_def repositoryCalls_def emptyRepository_def save_def
        preEpochContent_def undatedContent_def exampleContent_def)

text \<open>
  Claim C1. \<^verbatim>\<open>softDelete(id)\<close> succeeds exactly when the store holds a record under
  the id and the record is published; \<^verbatim>\<open>delete(id)\<close> succeeds exactly when it holds
  one that is not published. On an id the store does not hold both fail with
  \<^verbatim>\<open>NotFound\<close>; \<^verbatim>\<open>softDelete\<close> of a record that is not published and \<^verbatim>\<open>delete\<close> of a
  published one fail with \<^verbatim>\<open>InvalidOperation\<close>. A failed call leaves the store as it
  was.
\<close>

theorem softDelete_delete_asymmetry:
  "(fst (softDelete r i) = Inr () \<longleftrightarrow>
      (\<exists>c. map_get (contents r) i = Some c \<and> isPublished (state c)))
   \<and> (fst (delete r i) = Inr () \<longleftrightarrow>
        (\<exists>c. map_get (contents r) i = Some c \<and> \<not> isPublished (state c)))
   \<and> (map_get (contents r) i = None \<longrightarrow>
         softDelete r i = (Inl (NotFound ''Content not found''), r)
         \<and> delete r i = (Inl (NotFound ''Content not found''), r))
   \<and> (\<forall>c. map_get (contents r) i = Some c \<and> \<not> isPublished (state c) \<longrightarrow>
         softDelete r i
           = (Inl (InvalidOperation ''Only published content can be soft deleted''), r))
   \<and> (\<forall>c. map_get (contents r) i = Some c \<and> isPublished (state c) \<longrightarrow>
         delete r i
           = (Inl (InvalidOperation ''Published content cannot be hard deleted''), r))"
  by (auto simp: softDelete_def delete_def split: option.splits)

theorem softDelete_delete_asymmetry_witness:
  "fst (softDelete exampleRepository ''content-1'') = Inr ()
   \<and> (\<exists>m. fst (delete exampleRepository ''content-1'') = Inl (InvalidOperation m))
   \<and> fst (delete exampleRepository ''content-2'') = Inr ()
   \<and> (\<exists>m. fst (softDelete exampleRepository ''content-2'') = Inl (InvalidOperation m))
   \<and> (\<exists>m. fst (softDelete exampleRepository ''content-9'') = Inl (NotFound m))
   \<and> (\<exists>m. fst (delete exampleRepository ''content-9'') = Inl (NotFound m))"
  using softDelete_delete_asymmetry [of exampleRepository "''content-1''"]
    softDelete_delete_asymmetry [of exampleRepository "''content-2''"]
    softDelete_delete_asymmetry [of exampleRepository "''content-9''"]
  by (simp add: exampleRepository_eq exampleContent_def isPublished_def)

lemma repositoryCall_keeps_tombstone:
  "i \<in> deletedContents r \<Longrightarrow> i \<in> deletedContents (repositoryCall k r)"
  by (cases k) (auto simp: save_def softDelete_def delete_def split: option.splits)

lemma repositoryCalls_keep_tombstone:
  "i \<in> deletedContents r \<Longrightarrow> i \<in> deletedContents (repositoryCalls ks r)"
  unfolding repositoryCalls_def
  by (induction ks arbitrary: r) (simp_all add: repositoryCall_keeps_tombstone)

lemma softDelete_sets_tombstone:
  "fst (softDelete r i) = Inr () \<Longrightarrow> i \<in> deletedContents (snd (softDelete r i))"
  by (auto simp: softDelete_def split: option.splits if_splits)

text \<open>
  Claim C9. Once \<^verbatim>\<open>softDelete(id)\<close> has succeeded, \<^verbatim>\<open>findById(id)\<close> returns the
  null success and \<^verbatim>\<open>exists(id)\<close> returns false after any sequence of later calls of
  \<^verbatim>\<open>save\<close>, \<^verbatim>\<open>softDelete\<close> and \<^verbatim>\<open>delete\<close>, a \<^verbatim>\<open>save\<close> of a content with the same id
  included: no call of the repository contract takes an id out of \<^verbatim>\<open>deletedContents\<close>.
\<close>

theorem softDeleted_id_stays_invisible:
  assumes "fst (softDelete r i) = Inr ()"
  shows "findById (repositoryCalls ks (snd (softDelete r i))) i = Inr None
         \<and> exists (repositoryCalls ks (snd (softDelete r i))) i = Inr False"
proof -
  have "i \<in> deletedContents (repositoryCalls ks (snd (softDelete r i)))"
    using assms by (intro repositoryCalls_keep_tombstone softDelete_sets_tombstone)
  then show ?thesis
    by (simp add: findById_def exists_def)
qed

theorem softDeleted_id_stays_invisible_witness:
  "fst (softDelete exampleRepository ''content-1'') = Inr ()
   \<and> contentId exampleContent = ''content-1''
   \<and> findById (repositoryCalls [Save exampleContent]
        (snd (softDelete exampleRepository ''content-1''))) ''content-1'' = Inr None
   \<and> exists (repositoryCalls [Save exampleContent]
        (snd (softDelete exampleRepository ''content-1''))) ''content-1'' = Inr False"
proof -
  have h: "fst (softDelete exampleRepository ''content-1'') = Inr ()"
    by (simp add: softDelete_def exampleRepository_eq exampleContent_def isPublished_def)
  show ?thesis
    using h softDeleted_id_stays_invisible [OF h, of "[Save exampleContent]"]
    by (simp add: exampleContent_def)
qed

subsection \<open>findFeatured\<close>

lemma slice_from_0: "0 \<le> n \<Longrightarrow> slice xs 0 (Some n) = take (nat n) xs"
  by (auto simp: slice_def Let_def min_def)

lemma sort_insert_featuredCompare:
  "sort_insert featuredCompare x ys = insort_key (\<lambda>c. - featuredTime c) x ys"
  by (induction ys) (simp_all add: featuredCompare_def Let_def)

lemma array_sort_featuredCompare:
  "array_sort featuredCompare xs = sort_key (\<lambda>c. - featuredTime c) xs"
  by (induction xs) (simp_all add: array_sort_def sort_insert_featuredCompare)

lemma sorted_array_sort:
  "sorted_wrt (\<lambda>a b. featuredTime b \<le> featuredTime a) (array_sort featuredCompare xs)"
proof -
  have "sorted (map (\<lambda>c. - featuredTime c) (sort_key (\<lambda>c. - featuredTime c) xs))"
    by (rule sorted_sort_key)
  then show ?thesis
    by (simp add: array_sort_featuredCompare sorted_wrt_map)
qed

lemma set_array_sort: "set (array_sort featuredCompare xs) = set xs"
  by (simp add: array_sort_featuredCompare)

lemma findFeatured_eq:
  "findFeatured r = Inr (take 5 (array_sort featuredCompare
      (filter (\<lambda>c. isPublished (state c))
        (filter (\<lambda>c. contentId c \<notin> deletedContents r) (map_values (contents r))))))"
  by (simp add: findFeatured_def findPublished_def slice_from_0)

lemma sorted_wrt_take_drop:
  "sorted_wrt P xs \<Longrightarrow> x \<in> set (take n xs) \<Longrightarrow> y \<in> set (drop n xs) \<Longrightarrow> P x y"
  using sorted_wrt_append [of P "take n xs" "drop n xs"] by simp

lemma featuredTime_notOlderThan:
  assumes "featuredTime b \<le> featuredTime a" and "\<forall>t. publishedAt b = Some t \<longrightarrow> 0 < t"
  shows "notOlderThan a b"
  using assms
  by (auto simp: featuredTime_def notOlderThan_def split: option.splits if_splits)

lemma findFeatured_featuredRepository:
  "findFeatured featuredRepository = Inr [undatedContent, preEpochContent]"
  by (simp add: findFeatured_def findPublished_def featuredRepository_eq map_values_def
        slice_def array_sort_def featuredCompare_def featuredTime_def isPublished_def
        preEpochContent_def undatedContent_def exampleContent_def)

text \<open>
  Claim C8, as stated, fails. The store holds two published records, \<open>content-3\<close> dated
  one millisecond before the epoch and \<open>content-4\<close> with no \<^verbatim>\<open>publishedAt\<close>.
  \<^verbatim>\<open>findFeatured\<close> returns the undated record first, as the more recent of the two,
  where the claim orders it as the oldest.
\<close>

theorem findFeatured_undated_not_oldest_counterexample:
  "findById featuredRepository ''content-3'' = Inr (Some preEpochContent)
   \<and> findById featuredRepository ''content-4'' = Inr (Some undatedContent)
   \<and> publishedAt preEpochContent = Some (- 1)
   \<and> publishedAt undatedContent = None
   \<and> findFeatured featuredRepository = Inr [undatedContent, preEpochContent]
   \<and> \<not> sorted_wrt notOlderThan [undatedContent, preEpochContent]"
  by (simp add: findFeatured_featuredRepository)
     (simp add: findById_def featuredRepository_eq notOlderThan_def
        preEpochContent_def undatedContent_def exampleContent_def)

text \<open>
  Claim C8, amended. For every store, \<^verbatim>\<open>findFeatured\<close> returns at most 5 records, each
  a stored record that is not deleted and is published, ordered by \<^verbatim>\<open>publishedAt\<close>
  descending with a record that has no \<^verbatim>\<open>publishedAt\<close> ordered as if it were dated at
  the epoch (time 0); a published, non-deleted record that is left out is ordered after
  all five returned. When every dated record returned is dated after the epoch, the
  undated records are ordered as oldest.
\<close>

theorem findFeatured_top5_by_featuredTime:
  "\<exists>xs. findFeatured r = Inr xs
     \<and> length xs \<le> 5
     \<and> (\<forall>c \<in> set xs. contentId c \<notin> deletedContents r \<and> isPublished (state c)
                       \<and> c \<in> set (map_values (contents r)))
     \<and> sorted_wrt (\<lambda>a b. featuredTime b \<le> featuredTime a) xs
     \<and> (\<forall>d \<in> set (map_values (contents r)).
           contentId d \<notin> deletedContents r \<and> isPublished (state d) \<and> d \<notin> set xs
           \<longrightarrow> length xs = 5 \<and> (\<forall>c \<in> set xs. featuredTime d \<le> featuredTime c))
     \<and> ((\<forall>c \<in> set xs. \<forall>t. publishedAt c = Some t \<longrightarrow> 0 < t) \<longrightarrow> sorted_wrt notOlderThan xs)"
proof -
  define ps where "ps = filter (\<lambda>c. isPublished (state c))
        (filter (\<lambda>c. contentId c \<notin> deletedContents r) (map_values (contents r)))"
  define ss where "ss = array_sort featuredCompare ps"
  have ff: "findFeatured r = Inr (take 5 ss)"
    by (simp add: findFeatured_eq ss_def ps_def)
  have set_ss: "set ss = set ps"
    by (simp add: ss_def set_array_sort)
  have sorted_ss: "sorted_wrt (\<lambda>a b. featuredTime b \<le> featuredTime a) ss"
    by (simp add: ss_def sorted_array_sort)
  have len: "length (take 5 ss) \<le> 5" by simp
  have mem: "\<forall>c \<in> set (take 5 ss). contentId c \<notin> deletedContents r \<and> isPublished (state c)
                       \<and> c \<in> set (map_values (contents r))"
  proof
    fix c assume "c \<in> set (take 5 ss)"
    then have "c \<in> set ps" using set_ss by (auto dest: in_set_takeD)
    then show "contentId c \<notin> deletedContents r \<and> isPublished (state c)
                       \<and> c \<in> set (map_values (contents r))"
      by (simp add: ps_def)
  qed
  have srt: "sorted_wrt (\<lambda>a b. featuredTime b \<le> featuredTime a) (take 5 ss)"
    using sorted_ss by (rule sorted_wrt_take)
  have rest: "\<forall>d \<in> set (map_values (contents r)).
           contentId d \<notin> deletedContents r \<and> isPublished (state d) \<and> d \<notin> set (take 5 ss)
           \<longrightarrow> length (take 5 ss) = 5
                \<and> (\<forall>c \<in> set (take 5 ss). featuredTime d \<le> featuredTime c)"
  proof (intro ballI impI)
    fix d assume d: "d \<in> set (map_values (contents r))"
      and h: "contentId d \<notin> deletedContents r \<and> isPublished (state d) \<and> d \<notin> set (take 5 ss)"
    from d h have "d \<in> set ss" by (simp add: set_ss ps_def)
    then have "d \<in> set (take 5 ss @ drop 5 ss)" by simp
    with h have dd: "d \<in> set (drop 5 ss)" by (simp only: set_append) blast
    then have "drop 5 ss \<noteq> []" by auto
    then have l5: "length (take 5 ss) = 5" by simp
    have "\<forall>c \<in> set (take 5 ss). featuredTime d \<le> featuredTime c"
      using sorted_wrt_take_drop [OF sorted_ss _ dd] by blast
    with l5 show "length (take 5 ss) = 5
                  \<and> (\<forall>c \<in> set (take 5 ss). featuredTime d \<le> featuredTime c)"
      by simp
  qed
  have spec_order: "(\<forall>c \<in> set (take 5 ss). \<forall>t. publishedAt c = Some t \<longrightarrow> 0 < t)
                      \<longrightarrow> sorted_wrt notOlderThan (take 5 ss)"
  proof
    assume dated: "\<forall>c \<in> set (take 5 ss). \<forall>t. publishedAt c = Some t \<longrightarrow> 0 < t"
    show "sorted_wrt notOlderThan (take 5 ss)"
    proof (rule sorted_wrt_mono_rel [OF _ srt])
      fix a b assume "b \<in> set (take 5 ss)" and "featuredTime b \<le> featuredTime a"
      with dated show "notOlderThan a b"
        by (intro featuredTime_notOlderThan) auto
    qed
  qed
  from ff len mem srt rest spec_order show ?thesis by blast
qed

theorem findFeatured_top5_by_featuredTime_witness:
  "findFeatured featuredRepository = Inr [undatedContent, preEpochContent]
   \<and> length [undatedContent, preEpochContent] \<le> 5
   \<and> featuredTime undatedContent = 0
   \<and> featuredTime preEpochContent = - 1
   \<and> findFeatured exampleRepository = Inr [exampleContent\<lparr>state := Published\<rparr>]"
  using findFeatured_top5_by_featuredTime [of featuredRepository]
    findFeatured_top5_by_featuredTime [of exampleRepository]
  by (simp add: findFeatured_featuredRepository)
     (simp add: findFeatured_def findPublished_def exampleRepository_eq map_values_def
        slice_def array_sort_def featuredCompare_def featuredTime_def isPublished_def
        preEpochContent_def undatedContent_def exampleContent_def)

section \<open>Properties of ContentService\<close>

lemma applyInOrder_append:
  "applyInOrder (fs @ gs) c =
     (case applyInOrder fs c of Inl e \<Rightarrow> Inl e | Inr c' \<Rightarrow> applyInOrder gs c')"
  by (induction fs arbitrary: c) (simp_all split: sum.splits)

lemma updateContent_found_permitted:
  assumes "repo_findById R r i = (Inr (Some c), r1)" and "perm_canEdit P c u role"
  shows "updateContent R P tT tB tE r i upd u role =
     (case applyInOrder (requestedUpdates tT tB tE upd) c of
        Inl e \<Rightarrow> (Inl e, r1)
      | Inr c' \<Rightarrow>
          (case repo_save R r1 c' of
             (Inl e, r2) \<Rightarrow> (Inl e, r2)
           | (Inr _, r2) \<Rightarrow> (Inr c', r2)))"
  using assms
  by (simp add: updateContent_def requestedUpdates_def applyInOrder_append
           split: option.splits sum.splits prod.splits)

lemma updateContent_cases:
  "updateContent R P tT tB tE r i upd u role =
     (case repo_findById R r i of
        (Inl e, r1) \<Rightarrow> (Inl e, r1)
      | (Inr None, r1) \<Rightarrow> (Inl (NotFound ''Content not found''), r1)
      | (Inr (Some c), r1) \<Rightarrow>
          if \<not> perm_canEdit P c u role
          then (Inl (PermissionDenied ''Permission denied: cannot edit content''), r1)
          else (case applyInOrder (requestedUpdates tT tB tE upd) c of
                  Inl e \<Rightarrow> (Inl e, r1)
                | Inr c' \<Rightarrow>
                    (case repo_save R r1 c' of
                       (Inl e, r2) \<Rightarrow> (Inl e, r2)
                     | (Inr _, r2) \<Rightarrow> (Inr c', r2))))"
proof (cases "repo_findById R r i")
  case (Pair res r1)
  show ?thesis
  proof (cases res)
    case (Inl e)
    with Pair show ?thesis by (simp add: updateContent_def)
  next
    case (Inr oc)
    show ?thesis
    proof (cases oc)
      case None
      with Pair Inr show ?thesis by (simp add: updateContent_def)
    next
      case (Some c)
      show ?thesis
      proof (cases "perm_canEdit P c u role")
        case True
        with Pair Inr Some updateContent_found_permitted [of R r i c r1 P u role]
        show ?thesis by simp
      next
        case False
        with Pair Inr Some show ?thesis by (simp add: updateContent_def)
      qed
    qed
  qed
qed

lemma requestedUpdates_omitEmpty:
  "requestedUpdates tT tB tE (omitEmpty upd) = requestedUpdates tT tB tE upd"
  by (simp add: requestedUpdates_def omitEmpty_def split: option.splits)

lemma updateContent_success:
  assumes "repo_findById R r i = (Inr (Some c), r1)"
    and "updateContent R P tT tB tE r i upd u role = (Inr c', r2)"
  shows "applyInOrder (requestedUpdates tT tB tE upd) c = Inr c'
         \<and> repo_save R r1 c' = (Inr (), r2)"
  using assms
  by (auto simp: updateContent_cases split: if_splits sum.splits prod.splits)

lemma applied_title:
  "applyInOrder (requestedUpdates tT tB tE upd) c = Inr c' \<Longrightarrow>
     title c' = (case upd_title upd of None \<Rightarrow> title c | Some t \<Rightarrow> if t = [] then title c else t)"
  by (auto simp: requestedUpdates_def updateTitle_def updateBody_def updateExcerpt_def Let_def
           split: option.splits if_splits)

lemma applied_body:
  "applyInOrder (requestedUpdates tT tB tE upd) c = Inr c' \<Longrightarrow>
     body c' = (case upd_body upd of None \<Rightarrow> body c | Some b \<Rightarrow> if b = [] then body c else b)"
  by (auto simp: requestedUpdates_def updateTitle_def updateBody_def updateExcerpt_def Let_def
           split: option.splits if_splits)

lemma applied_excerpt_skipped:
  "applyInOrder (requestedUpdates tT tB tE upd) c = Inr c' \<Longrightarrow>
   upd_excerpt upd = None \<or> upd_excerpt upd = Some [] \<Longrightarrow>
     excerpt c' = (case upd_body upd of
                     None \<Rightarrow> excerpt c
                   | Some b \<Rightarrow> if b \<noteq> [] \<and> excerpt c = take 150 (body c) then take 150 b
                               else excerpt c)"
  by (auto simp: requestedUpdates_def updateTitle_def updateBody_def updateExcerpt_def Let_def
           split: option.splits if_splits)

lemma findById_exampleRepository:
  "findById exampleRepository ''content-2''
     = Inr (Some (exampleContent\<lparr>contentId := ''content-2''\<rparr>))"
  by (simp add: findById_def exampleRepository_eq)

lemma canEdit_example:
  "canEdit (exampleContent\<lparr>contentId := ''content-2''\<rparr>) ''user-1'' ''Author''"
  by (simp add: canEdit_def isOwnedBy_def exampleContent_def)

text \<open>
  Claim C5, as stated, fails. The call supplies the title \<^verbatim>\<open>""\<close> for the draft
  \<open>content-2\<close>, which its author may edit. Applying the supplied update fails, as
  \<^verbatim>\<open>updateTitle("")\<close> does, and by the claim the call returns that failure and does
  not write; \<^verbatim>\<open>updateContent\<close> skips the title, saves the record and returns it.
\<close>

theorem updateContent_empty_title_counterexample:
  "findById exampleRepository ''content-2''
     = Inr (Some (exampleContent\<lparr>contentId := ''content-2''\<rparr>))
   \<and> canEdit (exampleContent\<lparr>contentId := ''content-2''\<rparr>) ''user-1'' ''Author''
   \<and> applyInOrder
        (suppliedUpdates 2000 2001 2002
           \<lparr>upd_title = Some [], upd_body = None, upd_excerpt = None\<rparr>)
        (exampleContent\<lparr>contentId := ''content-2''\<rparr>)
      = Inl (InvalidInput ''Title must be between 5 and 100 characters'')
   \<and> updateContent inMemoryContentRepository defaultContentPermissions 2000 2001 2002
        exampleRepository ''content-2''
        \<lparr>upd_title = Some [], upd_body = None, upd_excerpt = None\<rparr> ''user-1'' ''Author''
      = (Inr (exampleContent\<lparr>contentId := ''content-2''\<rparr>),
         snd (save exampleRepository (exampleContent\<lparr>contentId := ''content-2''\<rparr>)))"
  by (simp add: findById_exampleRepository canEdit_example)
     (simp add: findById_def exampleRepository_eq canEdit_def isOwnedBy_def suppliedUpdates_def
        updateTitle_def updateContent_def inMemoryContentRepository_def
        defaultContentPermissions_def save_def exampleContent_def)

text \<open>
  Claim C5, amended. For every \<^verbatim>\<open>updateContent\<close> call on an existing content that the
  one \<^verbatim>\<open>canEdit\<close> check permits, with any repository: the field updates that are
  supplied and not the empty string are applied in the order title, body, excerpt; if
  one of them fails, the call returns that failure and the repository is left as the
  lookup left it, with no \<^verbatim>\<open>save\<close>; if all succeed, \<^verbatim>\<open>save\<close> is called once, on the
  outcome of the last update, and its result decides the call. With the in-memory
  repository a failed update leaves the store unchanged, and a successful call leaves
  the store that one \<^verbatim>\<open>save\<close> of the updated content makes.
\<close>

theorem updateContent_all_or_nothing:
  "(repo_findById R r i = (Inr (Some c), r1) \<and> perm_canEdit P c u role \<longrightarrow>
      updateContent R P tT tB tE r i upd u role =
        (case applyInOrder (requestedUpdates tT tB tE upd) c of
           Inl e \<Rightarrow> (Inl e, r1)
         | Inr c' \<Rightarrow>
             (case repo_save R r1 c' of
                (Inl e, r2) \<Rightarrow> (Inl e, r2)
              | (Inr _, r2) \<Rightarrow> (Inr c', r2))))
   \<and> (findById m j = Inr (Some d) \<and> canEdit d v role' \<longrightarrow>
        updateContent inMemoryContentRepository defaultContentPermissions tT tB tE m j upd v role' =
          (case applyInOrder (requestedUpdates tT tB tE upd) d of
             Inl e \<Rightarrow> (Inl e, m)
           | Inr d' \<Rightarrow> (Inr d', snd (save m d'))))"
proof (intro conjI impI)
  assume "repo_findById R r i = (Inr (Some c), r1) \<and> perm_canEdit P c u role"
  then show "updateContent R P tT tB tE r i upd u role =
        (case applyInOrder (requestedUpdates tT tB tE upd) c of
           Inl e \<Rightarrow> (Inl e, r1)
         | Inr c' \<Rightarrow>
             (case repo_save R r1 c' of
                (Inl e, r2) \<Rightarrow> (Inl e, r2)
              | (Inr _, r2) \<Rightarrow> (Inr c', r2)))"
    by (simp add: updateContent_found_permitted)
next
  assume h: "findById m j = Inr (Some d) \<and> canEdit d v role'"
  then have "repo_findById inMemoryContentRepository m j = (Inr (Some d), m)"
    and "perm_canEdit defaultContentPermissions d v role'"
    by (simp_all add: inMemoryContentRepository_def defaultContentPermissions_def)
  then have "updateContent inMemoryContentRepository defaultContentPermissions tT tB tE m j upd v role' =
        (case applyInOrder (requestedUpdates tT tB tE upd) d of
           Inl e \<Rightarrow> (Inl e, m)
         | Inr d' \<Rightarrow>
             (case repo_save inMemoryContentRepository m d' of
                (Inl e, r2) \<Rightarrow> (Inl e, r2)
              | (Inr _, r2) \<Rightarrow> (Inr d', r2)))"
    by (rule updateContent_found_permitted)
  then show "updateContent inMemoryContentRepository defaultContentPermissions tT tB tE m j upd v role' =
          (case applyInOrder (requestedUpdates tT tB tE upd) d of
             Inl e \<Rightarrow> (Inl e, m)
           | Inr d' \<Rightarrow> (Inr d', snd (save m d')))"
    by (simp add: inMemoryContentRepository_def save_def split: sum.splits)
qed

theorem updateContent_all_or_nothing_witness:
  "updateContent inMemoryContentRepository defaultContentPermissions 2000 2001 2002
     exampleRepository ''content-2''
     \<lparr>upd_title = Some ''New Title'', upd_body = Some ''too short'', upd_excerpt = Some ''Summary''\<rparr>
     ''user-1'' ''Author''
     = (Inl (InvalidInput ''Body must be at least 100 characters''), exampleRepository)
   \<and> updateContent inMemoryContentRepository defaultContentPermissions 2000 2001 2002
       exampleRepository ''content-2''
       \<lparr>upd_title = Some ''New Title'', upd_body = Some otherBody, upd_excerpt = Some ''Summary''\<rparr>
       ''user-1'' ''Author''
     = (Inr (exampleContent\<lparr>contentId := ''content-2'', title := ''New Title'', body := otherBody,
               excerpt := ''Summary'', updatedAt := Some 2002\<rparr>),
        snd (save exampleRepository
               (exampleContent\<lparr>contentId := ''content-2'', title := ''New Title'', body := otherBody,
                  excerpt := ''Summary'', updatedAt := Some 2002\<rparr>)))"
proof -
  note found = findById_exampleRepository canEdit_example
  have failing:
    "updateContent inMemoryContentRepository defaultContentPermissions 2000 2001 2002
       exampleRepository ''content-2''
       \<lparr>upd_title = Some ''New Title'', upd_body = Some ''too short'',
          upd_excerpt = Some ''Summary''\<rparr> ''user-1'' ''Author''
     = (case applyInOrder
               (requestedUpdates 2000 2001 2002
                  \<lparr>upd_title = Some ''New Title'', upd_body = Some ''too short'',
                     upd_excerpt = Some ''Summary''\<rparr>)
               (exampleContent\<lparr>contentId := ''content-2''\<rparr>) of
          Inl e \<Rightarrow> (Inl e, exampleRepository)
        | Inr d' \<Rightarrow> (Inr d', snd (save exampleRepository d')))"
    by (intro updateContent_all_or_nothing [THEN conjunct2, THEN mp] conjI found)
  have succeeding:
    "updateContent inMemoryContentRepository defaultContentPermissions 2000 2001 2002
       exampleRepository ''content-2''
       \<lparr>upd_title = Some ''New Title'', upd_body = Some otherBody,
          upd_excerpt = Some ''Summary''\<rparr> ''user-1'' ''Author''
     = (case applyInOrder
               (requestedUpdates 2000 2001 2002
                  \<lparr>upd_title = Some ''New Title'', upd_body = Some otherBody,
                     upd_excerpt = Some ''Summary''\<rparr>)
               (exampleContent\<lparr>contentId := ''content-2''\<rparr>) of
          Inl e \<Rightarrow> (Inl e, exampleRepository)
        | Inr d' \<Rightarrow> (Inr d', snd (save exampleRepository d')))"
    by (intro updateContent_all_or_nothing [THEN conjunct2, THEN mp] conjI found)
  show ?thesis
    unfolding failing succeeding
    by (simp add: requestedUpdates_def updateTitle_def updateBody_def updateExcerpt_def
          otherBody_def exampleContent_def)
qed

text \<open>
  Claim C10, as stated, fails. The draft \<open>content-2\<close> is stored with the excerpt that
  \<^verbatim>\<open>create\<close> derived from its body. The call supplies a new body and the excerpt
  \<^verbatim>\<open>""\<close>: the excerpt update is skipped, and yet the excerpt does not keep its
  stored value, since \<^verbatim>\<open>updateBody\<close> derives it again from the new body.
\<close>

theorem updateContent_empty_excerpt_counterexample:
  "findById exampleRepository ''content-2''
     = Inr (Some (exampleContent\<lparr>contentId := ''content-2''\<rparr>))
   \<and> excerpt (exampleContent\<lparr>contentId := ''content-2''\<rparr>) = replicate 120 (CHR ''x'')
   \<and> fst (updateContent inMemoryContentRepository defaultContentPermissions 2000 2001 2002
        exampleRepository ''content-2''
        \<lparr>upd_title = None, upd_body = Some otherBody, upd_excerpt = Some []\<rparr>
        ''user-1'' ''Author'')
      = Inr (exampleContent\<lparr>contentId := ''content-2'', body := otherBody,
               excerpt := replicate 130 (CHR ''y''), updatedAt := Some 2001\<rparr>)
   \<and> findById
        (snd (updateContent inMemoryContentRepository defaultContentPermissions 2000 2001 2002
           exampleRepository ''content-2''
           \<lparr>upd_title = None, upd_body = Some otherBody, upd_excerpt = Some []\<rparr>
           ''user-1'' ''Author''))
        ''content-2''
      = Inr (Some (exampleContent\<lparr>contentId := ''content-2'', body := otherBody,
               excerpt := replicate 130 (CHR ''y''), updatedAt := Some 2001\<rparr>))"
  by (simp add: findById_def exampleRepository_eq canEdit_def isOwnedBy_def
        updateBody_def updateContent_def inMemoryContentRepository_def
        defaultContentPermissions_def save_def exampleContent_def exampleBody_def otherBody_def)

text \<open>
  Claim C10, amended. In \<^verbatim>\<open>updateContent\<close> a field supplied as the empty string is
  treated as absent: the call returns what the call without that field returns and
  leaves the same repository, so an empty title is skipped instead of failing the
  5-character minimum and an empty excerpt does not clear the excerpt. When the call
  succeeds, the returned content is the stored one with the non-empty fields applied,
  it is the content that was saved, a skipped title or body has its stored value, and a
  skipped excerpt has its stored value unless a non-empty body is applied in the same
  call and the stored excerpt is the first 150 characters of the stored body; then it
  is the first 150 characters of the new body.
\<close>

theorem updateContent_empty_string_is_absent:
  "updateContent R P tT tB tE r i upd u role
     = updateContent R P tT tB tE r i (omitEmpty upd) u role
   \<and> (repo_findById R r i = (Inr (Some c), r1)
        \<and> updateContent R P tT tB tE r i upd u role = (Inr c', r2) \<longrightarrow>
          applyInOrder (requestedUpdates tT tB tE (omitEmpty upd)) c = Inr c'
        \<and> repo_save R r1 c' = (Inr (), r2)
        \<and> (upd_title upd = Some [] \<longrightarrow> title c' = title c)
        \<and> (upd_body upd = Some [] \<longrightarrow> body c' = body c)
        \<and> (upd_excerpt upd = Some [] \<longrightarrow>
              excerpt c' =
                (case upd_body upd of
                   None \<Rightarrow> excerpt c
                 | Some b \<Rightarrow> if b \<noteq> [] \<and> excerpt c = take 150 (body c) then take 150 b
                             else excerpt c)))"
proof (intro conjI impI)
  show "updateContent R P tT tB tE r i upd u role
          = updateContent R P tT tB tE r i (omitEmpty upd) u role"
    by (simp only: updateContent_cases requestedUpdates_omitEmpty)
next
  assume h: "repo_findById R r i = (Inr (Some c), r1)
             \<and> updateContent R P tT tB tE r i upd u role = (Inr c', r2)"
  then have applied: "applyInOrder (requestedUpdates tT tB tE upd) c = Inr c'"
    and saved: "repo_save R r1 c' = (Inr (), r2)"
    using updateContent_success [of R r i c r1 P tT tB tE upd u role c' r2] by simp_all
  show "applyInOrder (requestedUpdates tT tB tE (omitEmpty upd)) c = Inr c'"
    using applied by (simp add: requestedUpdates_omitEmpty)
  show "repo_save R r1 c' = (Inr (), r2)"
    by (rule saved)
  { assume "upd_title upd = Some []"
    then show "title c' = title c"
      using applied_title [OF applied] by simp }
  { assume "upd_body upd = Some []"
    then show "body c' = body c"
      using applied_body [OF applied] by simp }
  { assume "upd_excerpt upd = Some []"
    then show "excerpt c' =
                (case upd_body upd of
                   None \<Rightarrow> excerpt c
                 | Some b \<Rightarrow> if b \<noteq> [] \<and> excerpt c = take 150 (body c) then take 150 b
                             else excerpt c)"
      using applied_excerpt_skipped [OF applied] by simp }
qed

theorem updateContent_empty_string_is_absent_witness:
  "updateContent inMemoryContentRepository defaultContentPermissions 2000 2001 2002
     exampleRepository ''content-2''
     \<lparr>upd_title = Some [], upd_body = Some otherBody, upd_excerpt = Some ''Summary''\<rparr>
     ''user-1'' ''Author''
   = updateContent inMemoryContentRepository defaultContentPermissions 2000 2001 2002
       exampleRepository ''content-2''
       \<lparr>upd_title = None, upd_body = Some otherBody, upd_excerpt = Some ''Summary''\<rparr>
       ''user-1'' ''Author''
   \<and> updateContent inMemoryContentRepository defaultContentPermissions 2000 2001 2002
       exampleRepository ''content-2''
       \<lparr>upd_title = Some [], upd_body = Some otherBody, upd_excerpt = Some ''Summary''\<rparr>
       ''user-1'' ''Author''
     = (Inr (exampleContent\<lparr>contentId := ''content-2'', body := otherBody,
               excerpt := ''Summary'', updatedAt := Some 2002\<rparr>),
        snd (save exampleRepository
               (exampleContent\<lparr>contentId := ''content-2'', body := otherBody,
                  excerpt := ''Summary'', updatedAt := Some 2002\<rparr>)))
   \<and> title (exampleContent\<lparr>contentId := ''content-2'', body := otherBody,
               excerpt := ''Summary'', updatedAt := Some 2002\<rparr>)
     = title (exampleContent\<lparr>contentId := ''content-2''\<rparr>)"
proof -
  have lookup: "repo_findById inMemoryContentRepository exampleRepository ''content-2''
                  = (Inr (Some (exampleContent\<lparr>contentId := ''content-2''\<rparr>)), exampleRepository)"
    by (simp add: inMemoryContentRepository_def findById_exampleRepository)
  have result:
    "updateContent inMemoryContentRepository defaultContentPermissions 2000 2001 2002
       exampleRepository ''content-2''
       \<lparr>upd_title = Some [], upd_body = Some otherBody, upd_excerpt = Some ''Summary''\<rparr>
       ''user-1'' ''Author''
     = (Inr (exampleContent\<lparr>contentId := ''content-2'', body := otherBody,
               excerpt := ''Summary'', updatedAt := Some 2002\<rparr>),
        snd (save exampleRepository
               (exampleContent\<lparr>contentId := ''content-2'', body := otherBody,
                  excerpt := ''Summary'', updatedAt := Some 2002\<rparr>)))"
    by (simp add: findById_def exampleRepository_eq canEdit_def isOwnedBy_def
          updateBody_def updateExcerpt_def updateContent_def inMemoryContentRepository_def
          defaultContentPermissions_def save_def exampleContent_def exampleBody_def otherBody_def)
  have omitted:
    "omitEmpty \<lparr>upd_title = Some [], upd_body = Some otherBody, upd_excerpt = Some ''Summary''\<rparr>
       = \<lparr>upd_title = None, upd_body = Some otherBody, upd_excerpt = Some ''Summary''\<rparr>"
    by (simp add: omitEmpty_def otherBody_def)
  show ?thesis
    using lookup result omitted
      updateContent_empty_string_is_absent
        [where R = inMemoryContentRepository and P = defaultContentPermissions
           and tT = 2000 and tB = 2001 and tE = 2002
           and r = exampleRepository and i = "''content-2''"
           and upd = "\<lparr>upd_title = Some [], upd_body = Some otherBody,
                       upd_excerpt = Some ''Summary''\<rparr>"
           and u = "''user-1''" and role = "''Author''"
           and c = "exampleContent\<lparr>contentId := ''content-2''\<rparr>"
           and ?r1.0 = exampleRepository
           and c' = "exampleContent\<lparr>contentId := ''content-2'', body := otherBody,
                       excerpt := ''Summary'', updatedAt := Some 2002\<rparr>"
           and ?r2.0 = "snd (save exampleRepository
               (exampleContent\<lparr>contentId := ''content-2'', body := otherBody,
                  excerpt := ''Summary'', updatedAt := Some 2002\<rparr>))"]
    by simp
qed

end
